theory Spec2Isabelle
  imports Complex_Main
begin

section \<open>Chat transcripts\<close>

text \<open>
  A message is the two-key dictionary \<^verbatim>\<open>{"role": ..., "content": ...}\<close> that
  \<^verbatim>\<open>LLMBase.prepare_messages\<close> builds; both values are Python strings. One turn of
  the conversation history is a tuple \<^verbatim>\<open>(human, assistant)\<close>. The \<^verbatim>\<open>history\<close>
  argument defaults to \<^verbatim>\<open>None\<close>, so it is an optional list of turns.
\<close>

record message =
  role :: string
  content :: string

type_synonym turn = "string \<times> string"

type_synonym history = "turn list option"

text \<open>
  Python's truth value of the \<^verbatim>\<open>history\<close> argument, as \<^verbatim>\<open>if history:\<close> tests it:
  \<^verbatim>\<open>None\<close> and the empty list are false, a list with an element is true.
\<close>

fun truthy :: "history \<Rightarrow> bool" where
  "truthy None = False"
| "truthy (Some []) = False"
| "truthy (Some (x # xs)) = True"

text \<open>
  The body of \<^verbatim>\<open>for human, assistant in history\<close>: two appends to \<^verbatim>\<open>messages\<close>
  for every turn, in the order of the list.
\<close>

fun for_history :: "message list \<Rightarrow> turn list \<Rightarrow> message list" where
  "for_history messages [] = messages"
| "for_history messages ((human, assistant) # rest) =
     for_history
       ((messages @ [\<lparr>role = ''user'', content = human\<rparr>])
          @ [\<lparr>role = ''assistant'', content = assistant\<rparr>])
       rest"

text \<open>\<^verbatim>\<open>LLMBase.prepare_messages(self, message, prompt, history=None)\<close>, lines 9 to 35.\<close>

definition prepare_messages :: "string \<Rightarrow> string \<Rightarrow> history \<Rightarrow> message list" where
  "prepare_messages message prompt history =
     (let messages = [\<lparr>role = ''system'', content = prompt\<rparr>];
          messages = (if truthy history
                      then (case history of
                              Some turns \<Rightarrow> for_history messages turns
                            | None \<Rightarrow> messages)
                      else messages);
          messages = messages @ [\<lparr>role = ''user'', content = message\<rparr>]
      in messages)"

section \<open>Model instances and the world outside\<close>

text \<open>
  The four concrete subclasses of \<^verbatim>\<open>LLMBase\<close>. Each constructor takes one API key,
  kept here as the instance's only datum (\<^verbatim>\<open>GPTModel\<close> hands its key to the
  \<^verbatim>\<open>openai\<close> module, the others keep it or a client made from it).
  \<^verbatim>\<open>model.__class__.__name__\<close> is the name of the instance's class.
\<close>

datatype llm = LlamaModel string | GPTModel string | MistralModel string | NewModel string

fun class_name :: "llm \<Rightarrow> string" where
  "class_name (LlamaModel groq_api_key) = ''LlamaModel''"
| "class_name (GPTModel openai_api_key) = ''GPTModel''"
| "class_name (MistralModel groq_api_key) = ''MistralModel''"
| "class_name (NewModel api_key) = ''NewModel''"

text \<open>
  A chat-completion request as the three network variants issue it: the client library
  it goes through and the keyword arguments \<^verbatim>\<open>model\<close>, \<^verbatim>\<open>messages\<close> and
  \<^verbatim>\<open>max_tokens\<close>.
\<close>

datatype provider = Groq | OpenAI

record request =
  endpoint :: provider
  kw_model :: string
  kw_messages :: "message list"
  kw_max_tokens :: int

text \<open>
  Exceptions that leave the code: the \<^verbatim>\<open>ValueError\<close> raised on line 208, the
  \<^verbatim>\<open>IndexError\<close> of \<^verbatim>\<open>.choices[0]\<close> on a reply without choices, and whatever
  the client library raises (unreachable provider, rejected key, error status), named
  by its text.
\<close>

datatype exn = ValueError string | IndexError | ProviderError string

text \<open>
  What a run leaves behind, oldest first: the dispatches of the abstract method
  \<^verbatim>\<open>_call_model_api\<close> (receiver and argument, as a test double counting calls
  records them), the requests handed to a client library, and the lines printed.
\<close>

datatype event = Called llm "message list" | Sent request | Printed string

type_synonym trace = "event list"

text \<open>
  The provider is not part of the program: it is a parameter that answers a request,
  given everything that happened before, with an exception or with the texts of the
  reply's choices.
\<close>

type_synonym provider_api = "trace \<Rightarrow> request \<Rightarrow> exn + string list"

type_synonym 'a outcome = "(exn + 'a) \<times> trace"

text \<open>\<^verbatim>\<open>chat.completions.create(...)\<close> and \<^verbatim>\<open>ChatCompletion.create(...)\<close>.\<close>

definition create :: "provider_api \<Rightarrow> request \<Rightarrow> trace \<Rightarrow> string list outcome" where
  "create api req t = (api t req, t @ [Sent req])"

text \<open>\<^verbatim>\<open>.choices[0].message.content\<close>: indexing an empty list raises.\<close>

fun first_choice :: "string list \<Rightarrow> exn + string" where
  "first_choice [] = Inl IndexError"
| "first_choice (c # cs) = Inr c"

definition completion :: "provider_api \<Rightarrow> request \<Rightarrow> trace \<Rightarrow> string outcome" where
  "completion api req t =
     (case create api req t of
        (Inl e, t') \<Rightarrow> (Inl e, t')
      | (Inr choices, t') \<Rightarrow> (first_choice choices, t'))"

text \<open>
  \<^verbatim>\<open>_call_model_api(self, messages)\<close>, one equation per subclass (lines 81 to 97,
  111 to 127, 141 to 157 and 171 to 181). The dispatch itself is recorded first.
\<close>

fun call_model_api :: "provider_api \<Rightarrow> llm \<Rightarrow> message list \<Rightarrow> trace \<Rightarrow> string outcome" where
  "call_model_api api (LlamaModel k) messages t =
     completion api
       \<lparr>endpoint = Groq, kw_model = ''llama-3.1-8b-instant'',
        kw_messages = messages, kw_max_tokens = 1000\<rparr>
       (t @ [Called (LlamaModel k) messages])"
| "call_model_api api (GPTModel k) messages t =
     completion api
       \<lparr>endpoint = OpenAI, kw_model = ''gpt-3.5-turbo'',
        kw_messages = messages, kw_max_tokens = 1000\<rparr>
       (t @ [Called (GPTModel k) messages])"
| "call_model_api api (MistralModel k) messages t =
     completion api
       \<lparr>endpoint = Groq, kw_model = ''mixtral-8x7b-32768'',
        kw_messages = messages, kw_max_tokens = 1000\<rparr>
       (t @ [Called (MistralModel k) messages])"
| "call_model_api api (NewModel k) messages t =
     (Inr ''New Model's response'', t @ [Called (NewModel k) messages])"

text \<open>\<^verbatim>\<open>LLMBase.generate_response(self, message, prompt, history=None)\<close>, lines 51 to 67.\<close>

definition generate_response ::
  "provider_api \<Rightarrow> llm \<Rightarrow> string \<Rightarrow> string \<Rightarrow> history \<Rightarrow> trace \<Rightarrow> string outcome" where
  "generate_response api self message prompt history t =
     (let messages = prepare_messages message prompt history;
          response = call_model_api api self messages t
      in response)"

section \<open>The manager\<close>

record manager =
  models :: "llm list"

text \<open>
  \<^verbatim>\<open>random.sample(population, 2)\<close> belongs to Python's standard library, not to the
  program. It returns the elements at two different positions of the population, in
  the order drawn; which positions is the library's choice, equally likely among all
  ordered pairs of different positions. The draw is therefore a parameter, and
  \<open>draw_ok\<close> says what the library guarantees about it. \<open>all_draws\<close> lists the
  draws among which the library chooses.
\<close>

fun draw_ok :: "nat \<Rightarrow> nat \<times> nat \<Rightarrow> bool" where
  "draw_ok n (i, j) = (i < n \<and> j < n \<and> i \<noteq> j)"

fun random_sample :: "'a list \<Rightarrow> nat \<times> nat \<Rightarrow> 'a list" where
  "random_sample population (i, j) = [population ! i, population ! j]"


text \<open>The four local variables of \<^verbatim>\<open>chat_with_models\<close>, each \<^verbatim>\<open>None\<close> at first.\<close>

record slots =
  model_a_name :: "string option"
  model_a_response :: "string option"
  model_b_name :: "string option"
  model_b_response :: "string option"

text \<open>
  The loop \<^verbatim>\<open>for i, model in enumerate(selected_models)\<close>, lines 216 to 227. An
  exception of \<^verbatim>\<open>generate_response\<close> is not caught: it ends the loop and the call.
\<close>

fun for_selected ::
  "provider_api \<Rightarrow> string \<Rightarrow> string \<Rightarrow> history \<Rightarrow> (nat \<times> llm) list \<Rightarrow> slots \<Rightarrow> trace
     \<Rightarrow> slots outcome" where
  "for_selected api message prompt history [] s t = (Inr s, t)"
| "for_selected api message prompt history ((i, model) # rest) s t =
     (let model_name = class_name model
      in case generate_response api model message prompt history t of
           (Inl e, t') \<Rightarrow> (Inl e, t')
         | (Inr response, t') \<Rightarrow>
             (let t'' = t' @ [Printed (''Response for '' @ model_name @ '' was generated'')];
                  s' = (if i = 0
                        then s\<lparr>model_a_name := Some model_name,
                               model_a_response := Some response\<rparr>
                        else s\<lparr>model_b_name := Some model_name,
                               model_b_response := Some response\<rparr>)
              in for_selected api message prompt history rest s' t''))"

text \<open>
  \<^verbatim>\<open>LLMManager.chat_with_models(self, message, prompt, history=None)\<close>, lines 195 to
  229. The result is the tuple of the four local variables.
\<close>

definition chat_with_models ::
  "provider_api \<Rightarrow> nat \<times> nat \<Rightarrow> manager \<Rightarrow> string \<Rightarrow> string \<Rightarrow> history \<Rightarrow> trace
     \<Rightarrow> (string option \<times> string option \<times> string option \<times> string option) outcome" where
  "chat_with_models api draw self message prompt history t =
     (if length (models self) < 2
      then (Inl (ValueError ''At least two models are required to chat.''), t)
      else
        (let selected_models = random_sample (models self) draw;
             s = \<lparr>model_a_name = None, model_a_response = None,
                  model_b_name = None, model_b_response = None\<rparr>
         in case for_selected api message prompt history (enumerate 0 selected_models) s t of
              (Inl e, t') \<Rightarrow> (Inl e, t')
            | (Inr s', t') \<Rightarrow>
                (Inr (model_a_name s', model_b_name s', model_a_response s',
                      model_b_response s'), t')))"



text \<open>
  Two readings of a trace: the dispatches of \<^verbatim>\<open>_call_model_api\<close> in it, and the
  requests sent in it.
\<close>

fun calls :: "trace \<Rightarrow> (llm \<times> message list) list" where
  "calls [] = []"
| "calls (Called x messages # t) = (x, messages) # calls t"
| "calls (Sent req # t) = calls t"
| "calls (Printed line # t) = calls t"

fun requests :: "trace \<Rightarrow> request list" where
  "requests [] = []"
| "requests (Called x messages # t) = requests t"
| "requests (Sent req # t) = req # requests t"
| "requests (Printed line # t) = requests t"

text \<open>
  A provider for the examples below: the Mixtral endpoint is out of service, every
  other request is answered with a single choice.
\<close>

definition stub_provider :: provider_api where
  "stub_provider t req =
     (if kw_model req = ''mixtral-8x7b-32768''
      then Inl (ProviderError ''503 Service Unavailable'')
      else Inr [''ok''])"

section \<open>The transcript as a list object\<close>

text \<open>
  In Python \<^verbatim>\<open>messages\<close> is a list object that \<^verbatim>\<open>append\<close> changes in place, and
  \<^verbatim>\<open>self\<close> and \<^verbatim>\<open>history\<close> are references to objects of the caller. This section
  gives \<^verbatim>\<open>prepare_messages\<close> once more with these objects in a store, so that what
  the method changes can be stated. An address is a position in the store; an object
  is a list of messages, a list of turns or a model instance. The state also carries
  the trace of the world outside.
\<close>

datatype pyobj = MessageList "message list" | TurnList "turn list" | Instance llm

datatype pyref = PyNone | Ref nat

record pystate =
  heap :: "pyobj list"
  world :: trace

text \<open>The list display \<^verbatim>\<open>[...]\<close> makes a new object at an unused address.\<close>

definition new_list :: "message list \<Rightarrow> pystate \<Rightarrow> nat \<times> pystate" where
  "new_list xs s = (length (heap s), s\<lparr>heap := heap s @ [MessageList xs]\<rparr>)"

text \<open>
  \<^verbatim>\<open>messages.append(x)\<close> changes the list at the given address. The method only
  appends to the list it has made itself, so the other cases are never reached.
\<close>

definition list_append :: "nat \<Rightarrow> message \<Rightarrow> pystate \<Rightarrow> pystate" where
  "list_append a x s =
     (if a < length (heap s)
      then (case heap s ! a of
              MessageList xs \<Rightarrow> s\<lparr>heap := (heap s)[a := MessageList (xs @ [x])]\<rparr>
            | TurnList ts \<Rightarrow> s
            | Instance obj \<Rightarrow> s)
      else s)"

text \<open>
  The turns that a history reference holds at the moment it is read. The parameter
  is documented as a list of tuples; any other object has no turns to give.
\<close>

definition turns_at :: "pystate \<Rightarrow> nat \<Rightarrow> turn list" where
  "turns_at s a =
     (if a < length (heap s)
      then (case heap s ! a of
              TurnList ts \<Rightarrow> ts
            | MessageList xs \<Rightarrow> []
            | Instance obj \<Rightarrow> [])
      else [])"

fun truthy_ref :: "pystate \<Rightarrow> pyref \<Rightarrow> bool" where
  "truthy_ref s PyNone = False"
| "truthy_ref s (Ref a) = (turns_at s a \<noteq> [])"

text \<open>
  The \<^verbatim>\<open>for\<close> loop over the history object. Python's list iterator reads element
  \<open>k\<close> of the list as it is at that moment and stops when \<open>k\<close> reaches its length;
  the body appends twice to \<^verbatim>\<open>messages\<close>.
\<close>

function for_history_at :: "nat \<Rightarrow> nat \<Rightarrow> nat \<Rightarrow> pystate \<Rightarrow> pystate" where
  "for_history_at a k messages s =
     (if k < length (turns_at s a)
      then (case turns_at s a ! k of
              (human, assistant) \<Rightarrow>
                for_history_at a (Suc k) messages
                  (list_append messages \<lparr>role = ''assistant'', content = assistant\<rparr>
                    (list_append messages \<lparr>role = ''user'', content = human\<rparr> s)))
      else s)"
  by pat_completeness auto
termination
proof (relation "measure (\<lambda>(a, k, messages, s). length (turns_at s a) - k)")
  show "wf (measure (\<lambda>(a, k, messages, s). length (turns_at s a) - k))"
    by simp
next
  fix a k messages :: nat and s :: pystate and human assistant :: string
  assume k: "k < length (turns_at s a)"
  have keep: "turns_at (list_append b y u) a = turns_at u a" for b y u
    by (cases "heap u ! b")
       (auto simp: turns_at_def list_append_def nth_list_update split: pyobj.splits)
  from k show "((a, Suc k, messages,
            list_append messages \<lparr>role = ''assistant'', content = assistant\<rparr>
              (list_append messages \<lparr>role = ''user'', content = human\<rparr> s)),
           (a, k, messages, s))
          \<in> measure (\<lambda>(a, k, messages, s). length (turns_at s a) - k)"
    by (simp add: keep)
qed

declare for_history_at.simps [simp del]

text \<open>
  \<^verbatim>\<open>LLMBase.prepare_messages\<close> on the store: it returns the address of the list it
  has built, and the state it leaves.
\<close>

definition prepare_messages_at ::
  "nat \<Rightarrow> string \<Rightarrow> string \<Rightarrow> pyref \<Rightarrow> pystate \<Rightarrow> nat \<times> pystate" where
  "prepare_messages_at self message prompt history s =
     (case new_list [\<lparr>role = ''system'', content = prompt\<rparr>] s of
        (messages, s1) \<Rightarrow>
          (let s2 = (if truthy_ref s1 history
                     then (case history of
                             Ref a \<Rightarrow> for_history_at a 0 messages s1
                           | PyNone \<Rightarrow> s1)
                     else s1);
               s3 = list_append messages \<lparr>role = ''user'', content = message\<rparr> s2
           in (messages, s3)))"

text \<open>
  A reference stands for a history value in a state: \<^verbatim>\<open>None\<close> for no history, an
  address holding a list of turns for that list.
\<close>

fun denotes :: "pystate \<Rightarrow> pyref \<Rightarrow> history \<Rightarrow> bool" where
  "denotes s PyNone h = (h = None)"
| "denotes s (Ref a) h =
     (case h of
        None \<Rightarrow> False
      | Some ts \<Rightarrow> a < length (heap s) \<and> heap s ! a = TurnList ts)"

section \<open>Properties of the transcript\<close>

lemma for_history_concat:
  "for_history messages turns =
     messages @ concat (map (\<lambda>(human, assistant).
                   [\<lparr>role = ''user'', content = human\<rparr>,
                    \<lparr>role = ''assistant'', content = assistant\<rparr>]) turns)"
  by (induction messages turns rule: for_history.induct) simp_all

text \<open>
  Claim C1. With a non-empty history, the transcript is the system message carrying the
  prompt, then for every turn of the history, in the original order, a user message with
  the human text followed by an assistant message with the assistant text, and last a
  user message carrying the new message.
\<close>

theorem prepare_messages_with_history:
  assumes "turns \<noteq> []"
  shows "prepare_messages m p (Some turns) =
           \<lparr>role = ''system'', content = p\<rparr>
           # concat (map (\<lambda>(h, a). [\<lparr>role = ''user'', content = h\<rparr>,
                                    \<lparr>role = ''assistant'', content = a\<rparr>]) turns)
           @ [\<lparr>role = ''user'', content = m\<rparr>]"
proof -
  from assms obtain x xs where "turns = x # xs"
    by (cases turns) auto
  then have "truthy (Some turns)"
    by simp
  then show ?thesis
    by (simp add: prepare_messages_def for_history_concat)
qed

theorem prepare_messages_with_history_witness:
  "[(''h1'', ''a1''), (''h2'', ''a2'')] \<noteq> ([] :: turn list) \<and>
   prepare_messages ''hi'' ''sys'' (Some [(''h1'', ''a1''), (''h2'', ''a2'')]) =
     [\<lparr>role = ''system'', content = ''sys''\<rparr>,
      \<lparr>role = ''user'', content = ''h1''\<rparr>,
      \<lparr>role = ''assistant'', content = ''a1''\<rparr>,
      \<lparr>role = ''user'', content = ''h2''\<rparr>,
      \<lparr>role = ''assistant'', content = ''a2''\<rparr>,
      \<lparr>role = ''user'', content = ''hi''\<rparr>]"
  using prepare_messages_with_history
          [of "[(''h1'', ''a1''), (''h2'', ''a2'')]" "''hi''" "''sys''"]
  by simp

text \<open>
  Claim C5. Without a history (the argument left at its default \<^verbatim>\<open>None\<close>), the
  transcript has exactly two elements: the system message carrying the prompt and the
  user message carrying the new message.
\<close>

theorem prepare_messages_no_history:
  "prepare_messages m p None =
     [\<lparr>role = ''system'', content = p\<rparr>, \<lparr>role = ''user'', content = m\<rparr>]"
  by (simp add: prepare_messages_def)

theorem prepare_messages_no_history_witness:
  "prepare_messages ''hi'' ''sys'' None =
     [\<lparr>role = ''system'', content = ''sys''\<rparr>, \<lparr>role = ''user'', content = ''hi''\<rparr>]"
  using prepare_messages_no_history [of "''hi''" "''sys''"]
  by simp

text \<open>
  Claim C10. An empty history list behaves as no history: the history branch is entered
  only for a truthy argument, so both calls give the same two-element transcript.
\<close>

theorem prepare_messages_empty_history:
  "\<not> truthy (Some []) \<and> \<not> truthy None \<and>
   prepare_messages m p (Some []) = prepare_messages m p None \<and>
   prepare_messages m p (Some []) =
     [\<lparr>role = ''system'', content = p\<rparr>, \<lparr>role = ''user'', content = m\<rparr>]"
  by (simp add: prepare_messages_def)

theorem prepare_messages_empty_history_witness:
  "prepare_messages ''hi'' ''sys'' (Some []) = prepare_messages ''hi'' ''sys'' None \<and>
   prepare_messages ''hi'' ''sys'' (Some []) =
     [\<lparr>role = ''system'', content = ''sys''\<rparr>, \<lparr>role = ''user'', content = ''hi''\<rparr>]"
  using prepare_messages_empty_history [of "''hi''" "''sys''"]
  by blast

section \<open>Properties of a generation\<close>

lemma calls_append: "calls (t @ u) = calls t @ calls u"
  by (induction t rule: calls.induct) simp_all

lemma requests_append: "requests (t @ u) = requests t @ requests u"
  by (induction t rule: requests.induct) simp_all

lemma snd_completion: "snd (completion api req t) = t @ [Sent req]"
  by (simp add: completion_def create_def split: sum.splits)

lemma calls_call_model_api:
  "calls (snd (call_model_api api x messages t)) = calls t @ [(x, messages)]"
  by (cases x) (simp_all add: snd_completion calls_append)

text \<open>
  Every request that a dispatch of \<^verbatim>\<open>_call_model_api\<close> adds to the trace carries
  \<^verbatim>\<open>max_tokens=1000\<close>, whichever of the three network variants sends it. (The
  source writes the literal at each of the three call sites.)
\<close>

lemma requests_call_model_api:
  "\<forall>req \<in> set (requests (snd (call_model_api api x messages t))) - set (requests t).
     kw_max_tokens req = 1000"
  by (cases x) (auto simp: snd_completion requests_append)

text \<open>
  Claim C7. \<^verbatim>\<open>generate_response\<close> is the composition of its two steps: its result and
  its effects are those of \<^verbatim>\<open>_call_model_api\<close> on the prepared transcript, and the
  method is dispatched exactly once, on the receiver, with that transcript.
\<close>

theorem generate_response_composition:
  "generate_response api self m p h t = call_model_api api self (prepare_messages m p h) t \<and>
   calls (snd (generate_response api self m p h t)) = calls t @ [(self, prepare_messages m p h)]"
  by (simp add: generate_response_def calls_call_model_api)

theorem generate_response_composition_witness:
  "generate_response stub_provider (LlamaModel ''key'') ''hi'' ''sys'' None [] =
     call_model_api stub_provider (LlamaModel ''key'') (prepare_messages ''hi'' ''sys'' None) [] \<and>
   fst (generate_response stub_provider (LlamaModel ''key'') ''hi'' ''sys'' None []) = Inr ''ok'' \<and>
   calls (snd (generate_response stub_provider (LlamaModel ''key'') ''hi'' ''sys'' None [])) =
     [(LlamaModel ''key'',
       [\<lparr>role = ''system'', content = ''sys''\<rparr>, \<lparr>role = ''user'', content = ''hi''\<rparr>])]"
  using generate_response_composition
          [of stub_provider "LlamaModel ''key''" "''hi''" "''sys''" None "[]"]
  by (simp add: prepare_messages_def completion_def create_def stub_provider_def)

section \<open>Properties of the manager\<close>

text \<open>
  With two or more models the call is the first generation followed, if that one
  returned, by the printed line and the second generation.
\<close>

lemma chat_with_models_unfold:
  assumes "2 \<le> length (models self)"
  shows "chat_with_models api (i, j) self m p h t =
     (case generate_response api (models self ! i) m p h t of
        (Inl e, t1) \<Rightarrow> (Inl e, t1)
      | (Inr ra, t1) \<Rightarrow>
          (case generate_response api (models self ! j) m p h
                  (t1 @ [Printed (''Response for '' @ class_name (models self ! i)
                                   @ '' was generated'')]) of
             (Inl e, t2) \<Rightarrow> (Inl e, t2)
           | (Inr rb, t2) \<Rightarrow>
               (Inr (Some (class_name (models self ! i)),
                     Some (class_name (models self ! j)), Some ra, Some rb),
                t2 @ [Printed (''Response for '' @ class_name (models self ! j)
                                @ '' was generated'')])))"
  using assms
  by (simp add: chat_with_models_def Let_def split: prod.splits sum.splits)









text \<open>
  Claim C2, as amended. When the configured instances have pairwise different classes,
  the two names returned are different: they are the class names of the instances at
  the two different positions drawn.
\<close>

theorem chat_with_models_distinct_names:
  assumes "2 \<le> length (models self)" and "draw_ok (length (models self)) (i, j)"
    and "distinct (map class_name (models self))"
    and "fst (chat_with_models api (i, j) self m p h t) = Inr (a, b, ra, rb)"
  shows "a = Some (class_name (models self ! i)) \<and>
         b = Some (class_name (models self ! j)) \<and> a \<noteq> b"
proof -
  from assms(2) have i: "i < length (models self)" and j: "j < length (models self)"
    and ij: "i \<noteq> j"
    by simp_all
  have "(map class_name (models self) ! i = map class_name (models self) ! j) = (i = j)"
    using assms(3) i j by (intro nth_eq_iff_index_eq) simp_all
  then have names: "class_name (models self ! i) \<noteq> class_name (models self ! j)"
    using i j ij by simp
  from assms(4) have "a = Some (class_name (models self ! i))"
    and "b = Some (class_name (models self ! j))"
    by (auto simp: chat_with_models_unfold [OF assms(1)] split: prod.splits sum.splits)
  with names show ?thesis
    by simp
qed

theorem chat_with_models_distinct_names_witness:
  "2 \<le> length (models \<lparr>models = [LlamaModel ''key1'', NewModel ''key2'']\<rparr>) \<and>
   draw_ok (length (models \<lparr>models = [LlamaModel ''key1'', NewModel ''key2'']\<rparr>)) (1, 0) \<and>
   distinct (map class_name (models \<lparr>models = [LlamaModel ''key1'', NewModel ''key2'']\<rparr>)) \<and>
   fst (chat_with_models stub_provider (1, 0)
          \<lparr>models = [LlamaModel ''key1'', NewModel ''key2'']\<rparr> ''hi'' ''sys'' None []) =
     Inr (Some ''NewModel'', Some ''LlamaModel'', Some ''New Model's response'', Some ''ok'') \<and>
   Some ''NewModel'' \<noteq> Some ''LlamaModel''"
  using chat_with_models_distinct_names
          [of "\<lparr>models = [LlamaModel ''key1'', NewModel ''key2'']\<rparr>" 1 0 stub_provider
              "''hi''" "''sys''" None "[]" "Some ''NewModel''" "Some ''LlamaModel''"
              "Some ''New Model's response''" "Some ''ok''"]
  by (simp add: chat_with_models_def generate_response_def completion_def create_def
        stub_provider_def Let_def)

text \<open>
  Claim C2, as stated, fails: a manager configured with two \<^verbatim>\<open>LlamaModel\<close> instances
  (two keys) returns the name \<^verbatim>\<open>LlamaModel\<close> twice.
\<close>

theorem chat_with_models_same_class_counterexample:
  "2 \<le> length (models \<lparr>models = [LlamaModel ''key1'', LlamaModel ''key2'']\<rparr>) \<and>
   draw_ok (length (models \<lparr>models = [LlamaModel ''key1'', LlamaModel ''key2'']\<rparr>)) (0, 1) \<and>
   fst (chat_with_models stub_provider (0, 1)
          \<lparr>models = [LlamaModel ''key1'', LlamaModel ''key2'']\<rparr> ''hi'' ''sys'' None []) =
     Inr (Some ''LlamaModel'', Some ''LlamaModel'', Some ''ok'', Some ''ok'')"
  by (simp add: chat_with_models_def generate_response_def completion_def create_def
        stub_provider_def Let_def)

text \<open>
  Claim C3. With fewer than two models the call raises the \<^verbatim>\<open>ValueError\<close> of line
  208 (the error the specification names InsufficientModelsError) and leaves the trace
  as it found it: no dispatch of \<^verbatim>\<open>_call_model_api\<close>, no request, no printed line.
\<close>

theorem chat_with_models_too_few:
  assumes "length (models self) < 2"
  shows "chat_with_models api draw self m p h t =
           (Inl (ValueError ''At least two models are required to chat.''), t) \<and>
         calls (snd (chat_with_models api draw self m p h t)) = calls t \<and>
         requests (snd (chat_with_models api draw self m p h t)) = requests t"
  using assms by (simp add: chat_with_models_def)

theorem chat_with_models_too_few_witness:
  "length (models \<lparr>models = [GPTModel ''key'']\<rparr>) < 2 \<and>
   chat_with_models stub_provider (0, 0) \<lparr>models = [GPTModel ''key'']\<rparr> ''hi'' ''sys'' None [] =
     (Inl (ValueError ''At least two models are required to chat.''), [])"
  using chat_with_models_too_few
          [of "\<lparr>models = [GPTModel ''key'']\<rparr>" stub_provider "(0, 0)" "''hi''" "''sys''" None "[]"]
  by simp

text \<open>
  Claim C4. With two or more models, an exception of the first generation is the
  outcome of the call, and so is an exception of the second generation; in each case the
  trace is the one the failing generation left. The call returns either an exception or
  a tuple whose four fields are all set.
\<close>

theorem chat_with_models_propagates:
  assumes "2 \<le> length (models self)" and "draw_ok (length (models self)) (i, j)"
  shows "(\<forall>e t1. generate_response api (models self ! i) m p h t = (Inl e, t1) \<longrightarrow>
            chat_with_models api (i, j) self m p h t = (Inl e, t1)) \<and>
         (\<forall>ra t1 e t2.
            generate_response api (models self ! i) m p h t = (Inr ra, t1) \<and>
            generate_response api (models self ! j) m p h
              (t1 @ [Printed (''Response for '' @ class_name (models self ! i)
                               @ '' was generated'')]) = (Inl e, t2) \<longrightarrow>
            chat_with_models api (i, j) self m p h t = (Inl e, t2)) \<and>
         ((\<exists>e. fst (chat_with_models api (i, j) self m p h t) = Inl e) \<or>
          (\<exists>a b ra rb. fst (chat_with_models api (i, j) self m p h t) =
                          Inr (Some a, Some b, Some ra, Some rb)))"
proof (intro conjI allI impI)
  fix e t1
  assume "generate_response api (models self ! i) m p h t = (Inl e, t1)"
  then show "chat_with_models api (i, j) self m p h t = (Inl e, t1)"
    by (simp add: chat_with_models_unfold [OF assms(1)])
next
  fix ra t1 e t2
  assume "generate_response api (models self ! i) m p h t = (Inr ra, t1) \<and>
          generate_response api (models self ! j) m p h
            (t1 @ [Printed (''Response for '' @ class_name (models self ! i)
                             @ '' was generated'')]) = (Inl e, t2)"
  then show "chat_with_models api (i, j) self m p h t = (Inl e, t2)"
    by (simp add: chat_with_models_unfold [OF assms(1)])
next
  show "(\<exists>e. fst (chat_with_models api (i, j) self m p h t) = Inl e) \<or>
        (\<exists>a b ra rb. fst (chat_with_models api (i, j) self m p h t) =
                        Inr (Some a, Some b, Some ra, Some rb))"
    by (simp add: chat_with_models_unfold [OF assms(1)] split: prod.splits sum.splits)
qed

theorem chat_with_models_propagates_witness:
  "2 \<le> length (models \<lparr>models = [LlamaModel ''key1'', MistralModel ''key2'']\<rparr>) \<and>
   draw_ok (length (models \<lparr>models = [LlamaModel ''key1'', MistralModel ''key2'']\<rparr>)) (0, 1) \<and>
   fst (generate_response stub_provider (LlamaModel ''key1'') ''hi'' ''sys'' None []) = Inr ''ok'' \<and>
   fst (chat_with_models stub_provider (0, 1)
          \<lparr>models = [LlamaModel ''key1'', MistralModel ''key2'']\<rparr> ''hi'' ''sys'' None []) =
     Inl (ProviderError ''503 Service Unavailable'')"
  using chat_with_models_propagates
          [of "\<lparr>models = [LlamaModel ''key1'', MistralModel ''key2'']\<rparr>" 0 1 stub_provider
              "''hi''" "''sys''" None "[]"]
  by (simp add: generate_response_def completion_def create_def stub_provider_def Let_def)




section \<open>Properties of the transcript as a list object\<close>

lemma list_append_MessageList:
  assumes "b < length (heap s)" and "heap s ! b = MessageList xs"
  shows "list_append b y s = s\<lparr>heap := (heap s)[b := MessageList (xs @ [y])]\<rparr>"
  using assms by (simp add: list_append_def)

text \<open>
  The loop on the store does what \<open>for_history\<close> does, to the one list it appends
  to. The history lives at another address than that list, since the two objects have
  different kinds.
\<close>

lemma for_history_at_eq:
  assumes "a < length (heap s)" and "heap s ! a = TurnList ts"
    and "b < length (heap s)" and "heap s ! b = MessageList xs"
  shows "for_history_at a k b s =
           s\<lparr>heap := (heap s)[b := MessageList (for_history xs (drop k ts))]\<rparr>"
  using assms
proof (induction a k b s arbitrary: xs rule: for_history_at.induct)
  case (1 a k b s)
  have ab: "a \<noteq> b"
    using "1.prems" by auto
  have ts: "turns_at s a = ts"
    using "1.prems" by (simp add: turns_at_def)
  show ?case
  proof (cases "k < length ts")
    case False
    have "(heap s)[b := MessageList xs] = heap s"
      using "1.prems" by (metis list_update_id)
    with False ts show ?thesis
      by (subst for_history_at.simps) simp
  next
    case True
    obtain human assistant where hk: "ts ! k = (human, assistant)"
      by (cases "ts ! k")
    let ?u = "\<lparr>role = ''user'', content = human\<rparr>"
    let ?v = "\<lparr>role = ''assistant'', content = assistant\<rparr>"
    let ?s1 = "list_append b ?u s"
    let ?s2 = "list_append b ?v ?s1"
    have s1: "?s1 = s\<lparr>heap := (heap s)[b := MessageList (xs @ [?u])]\<rparr>"
      using "1.prems" by (simp add: list_append_MessageList)
    have s2: "?s2 = s\<lparr>heap := (heap s)[b := MessageList ((xs @ [?u]) @ [?v])]\<rparr>"
      using "1.prems" by (simp add: s1 list_append_def)
    have IH: "for_history_at a (Suc k) b ?s2 =
            ?s2\<lparr>heap := (heap ?s2)[b := MessageList
                     (for_history ((xs @ [?u]) @ [?v]) (drop (Suc k) ts))]\<rparr>"
      using True ts hk "1.prems" ab
      by (intro "1.IH"[of human assistant]) (simp_all add: s2)
    have dr: "drop k ts = (human, assistant) # drop (Suc k) ts"
      using True hk by (simp add: Cons_nth_drop_Suc [symmetric])
    have "for_history_at a k b s = for_history_at a (Suc k) b ?s2"
      using True ts hk by (subst for_history_at.simps) simp
    also have "\<dots> = s\<lparr>heap := (heap s)[b := MessageList (for_history xs (drop k ts))]\<rparr>"
      by (simp add: IH dr) (simp add: s2)
    finally show ?thesis .
  qed
qed

lemma prepare_messages_at_eq:
  assumes "denotes s r h"
  shows "prepare_messages_at self m p r s =
           (length (heap s), s\<lparr>heap := heap s @ [MessageList (prepare_messages m p h)]\<rparr>)"
proof -
  let ?n = "length (heap s)"
  let ?sys = "\<lparr>role = ''system'', content = p\<rparr>"
  let ?usr = "\<lparr>role = ''user'', content = m\<rparr>"
  let ?s1 = "s\<lparr>heap := heap s @ [MessageList [?sys]]\<rparr>"
  have new: "new_list [?sys] s = (?n, ?s1)"
    by (simp add: new_list_def)
  have last_append: "list_append ?n ?usr (s\<lparr>heap := heap s @ [MessageList xs]\<rparr>) =
          s\<lparr>heap := heap s @ [MessageList (xs @ [?usr])]\<rparr>" for xs
    by (simp add: list_append_def)
  show ?thesis
  proof (cases r)
    case PyNone
    with assms have "h = None"
      by simp
    with PyNone show ?thesis
      by (simp add: prepare_messages_at_def new last_append prepare_messages_def)
  next
    case (Ref a)
    with assms obtain ts where h: "h = Some ts"
      and a: "a < length (heap s)" and ts: "heap s ! a = TurnList ts"
      by (cases h) auto
    have at: "turns_at ?s1 a = ts"
      using a ts by (simp add: turns_at_def nth_append)
    show ?thesis
    proof (cases ts)
      case Nil
      with Ref h at show ?thesis
        by (simp add: prepare_messages_at_def new last_append prepare_messages_def)
    next
      case (Cons x xs)
      have "for_history_at a 0 ?n ?s1 =
              ?s1\<lparr>heap := (heap ?s1)[?n := MessageList (for_history [?sys] (drop 0 ts))]\<rparr>"
        using a ts by (intro for_history_at_eq) (simp_all add: nth_append)
      then have loop: "for_history_at a 0 ?n ?s1 =
              s\<lparr>heap := heap s @ [MessageList (for_history [?sys] ts)]\<rparr>"
        by simp
      from Cons Ref h at show ?thesis
        by (simp add: prepare_messages_at_def new loop last_append prepare_messages_def)
    qed
  qed
qed

text \<open>
  Claim C9. \<^verbatim>\<open>prepare_messages\<close> is pure and deterministic. Run in any state, on any
  receiver, it returns a list object at an address that was not in use; the objects that
  were there before the call (the receiver, the history list and everything else) are
  as they were, and so is the world outside. The content of the returned list is
  \<open>prepare_messages m p h\<close>, a function of the message, the prompt and the value of
  the history alone: a second call with equal inputs, in any other state and on any
  other receiver, returns an equal message sequence.
\<close>

theorem prepare_messages_pure:
  assumes "denotes s r h" and "denotes s' r' h"
  shows "fst (prepare_messages_at self m p r s) = length (heap s) \<and>
         heap (snd (prepare_messages_at self m p r s)) =
           heap s @ [MessageList (prepare_messages m p h)] \<and>
         world (snd (prepare_messages_at self m p r s)) = world s \<and>
         heap (snd (prepare_messages_at self m p r s)) ! fst (prepare_messages_at self m p r s) =
           heap (snd (prepare_messages_at self' m p r' s')) !
             fst (prepare_messages_at self' m p r' s')"
  using assms by (simp add: prepare_messages_at_eq)

theorem prepare_messages_pure_witness:
  "denotes \<lparr>heap = [Instance (NewModel ''k''), TurnList [(''h1'', ''a1'')]], world = []\<rparr>
     (Ref 1) (Some [(''h1'', ''a1'')]) \<and>
   denotes \<lparr>heap = [TurnList [(''h1'', ''a1'')], Instance (GPTModel ''k'')],
            world = [Printed ''earlier'']\<rparr>
     (Ref 0) (Some [(''h1'', ''a1'')]) \<and>
   heap (snd (prepare_messages_at 0 ''hi'' ''sys'' (Ref 1)
          \<lparr>heap = [Instance (NewModel ''k''), TurnList [(''h1'', ''a1'')]], world = []\<rparr>)) =
     [Instance (NewModel ''k''), TurnList [(''h1'', ''a1'')],
      MessageList [\<lparr>role = ''system'', content = ''sys''\<rparr>,
                   \<lparr>role = ''user'', content = ''h1''\<rparr>,
                   \<lparr>role = ''assistant'', content = ''a1''\<rparr>,
                   \<lparr>role = ''user'', content = ''hi''\<rparr>]] \<and>
   heap (snd (prepare_messages_at 0 ''hi'' ''sys'' (Ref 1)
          \<lparr>heap = [Instance (NewModel ''k''), TurnList [(''h1'', ''a1'')]], world = []\<rparr>)) !
     fst (prepare_messages_at 0 ''hi'' ''sys'' (Ref 1)
          \<lparr>heap = [Instance (NewModel ''k''), TurnList [(''h1'', ''a1'')]], world = []\<rparr>) =
   heap (snd (prepare_messages_at 1 ''hi'' ''sys'' (Ref 0)
          \<lparr>heap = [TurnList [(''h1'', ''a1'')], Instance (GPTModel ''k'')],
           world = [Printed ''earlier'']\<rparr>)) !
     fst (prepare_messages_at 1 ''hi'' ''sys'' (Ref 0)
          \<lparr>heap = [TurnList [(''h1'', ''a1'')], Instance (GPTModel ''k'')],
           world = [Printed ''earlier'']\<rparr>)"
proof -
  let ?s = "\<lparr>heap = [Instance (NewModel ''k''), TurnList [(''h1'', ''a1'')]], world = []\<rparr>"
  let ?s' = "\<lparr>heap = [TurnList [(''h1'', ''a1'')], Instance (GPTModel ''k'')],
             world = [Printed ''earlier'']\<rparr>"
  have first: "denotes ?s (Ref 1) (Some [(''h1'', ''a1'')])"
    by simp
  have second: "denotes ?s' (Ref 0) (Some [(''h1'', ''a1'')])"
    by simp
  note pure = prepare_messages_pure [OF first second, of 0 "''hi''" "''sys''" 1]
  have transcript: "prepare_messages ''hi'' ''sys'' (Some [(''h1'', ''a1'')]) =
      [\<lparr>role = ''system'', content = ''sys''\<rparr>, \<lparr>role = ''user'', content = ''h1''\<rparr>,
       \<lparr>role = ''assistant'', content = ''a1''\<rparr>, \<lparr>role = ''user'', content = ''hi''\<rparr>]"
    by (simp add: prepare_messages_def)
  from pure have "heap (snd (prepare_messages_at 0 ''hi'' ''sys'' (Ref 1) ?s)) =
      heap ?s @ [MessageList (prepare_messages ''hi'' ''sys'' (Some [(''h1'', ''a1'')]))]"
    by blast
  then have frame: "heap (snd (prepare_messages_at 0 ''hi'' ''sys'' (Ref 1) ?s)) =
      [Instance (NewModel ''k''), TurnList [(''h1'', ''a1'')],
       MessageList [\<lparr>role = ''system'', content = ''sys''\<rparr>,
                    \<lparr>role = ''user'', content = ''h1''\<rparr>,
                    \<lparr>role = ''assistant'', content = ''a1''\<rparr>,
                    \<lparr>role = ''user'', content = ''hi''\<rparr>]]"
    by (simp only: transcript) simp
  from pure have same:
    "heap (snd (prepare_messages_at 0 ''hi'' ''sys'' (Ref 1) ?s)) !
       fst (prepare_messages_at 0 ''hi'' ''sys'' (Ref 1) ?s) =
     heap (snd (prepare_messages_at 1 ''hi'' ''sys'' (Ref 0) ?s')) !
       fst (prepare_messages_at 1 ''hi'' ''sys'' (Ref 0) ?s')"
    by blast
  from first second frame same show ?thesis
    by blast
qed

end
